theory Spec2Isabelle
  imports Main
begin

section \<open>JavaScript numbers and hexadecimal conversion\<close>

text \<open>
  The block numbers, transaction indices and log indices of \<^verbatim>\<open>cronJob.js\<close> are
  JavaScript numbers produced by \<^verbatim>\<open>parseInt(s, 16)\<close>: an integer, or \<^verbatim>\<open>NaN\<close> when
  the text has no hexadecimal digit where one is expected. Integers are kept exact here;
  JavaScript agrees with that up to \<open>2^53\<close> (beyond it a double rounds). The negative
  zero that \<^verbatim>\<open>parseInt("-0", 16)\<close> yields is identified with \<open>0\<close>: both are falsy,
  compare alike and print alike.
\<close>

datatype jsnum = NaN | Num int

text \<open>Truthiness of a number: \<^verbatim>\<open>0\<close> and \<^verbatim>\<open>NaN\<close> are falsy.\<close>

fun truthy :: "jsnum \<Rightarrow> bool" where
  "truthy NaN = False"
| "truthy (Num n) = (n \<noteq> 0)"

text \<open>\<^verbatim>\<open>a > b\<close> and \<^verbatim>\<open>a <= b\<close>: every comparison with \<^verbatim>\<open>NaN\<close> is false.\<close>

fun js_gt :: "jsnum \<Rightarrow> jsnum \<Rightarrow> bool" where
  "js_gt (Num a) (Num b) = (a > b)"
| "js_gt _ _ = False"



text \<open>\<^verbatim>\<open>x + 1\<close> on a number.\<close>

fun js_succ :: "jsnum \<Rightarrow> jsnum" where
  "js_succ NaN = NaN"
| "js_succ (Num n) = Num (n + 1)"

text \<open>
  The value of one hexadecimal digit, in either case; \<open>None\<close> for any other character.
\<close>

definition hex_digit :: "char \<Rightarrow> nat option" where
  "hex_digit c =
     (let n = (of_char c :: nat) in
      if 48 \<le> n \<and> n \<le> 57 then Some (n - 48)
      else if 97 \<le> n \<and> n \<le> 102 then Some (n - 87)
      else if 65 \<le> n \<and> n \<le> 70 then Some (n - 55)
      else None)"

definition is_hex :: "char \<Rightarrow> bool" where
  "is_hex c = (hex_digit c \<noteq> None)"

definition hex_value :: "string \<Rightarrow> int" where
  "hex_value ds = foldl (\<lambda>a c. 16 * a + (case hex_digit c of Some d \<Rightarrow> int d | None \<Rightarrow> 0)) 0 ds"

text \<open>
  The white space \<^verbatim>\<open>parseInt\<close> skips at the start. Strings are byte strings here, so
  only the ASCII white space is covered: tab, line feed, vertical tab, form feed,
  carriage return and space.
\<close>

definition is_space :: "char \<Rightarrow> bool" where
  "is_space c = (let n = (of_char c :: nat) in (9 \<le> n \<and> n \<le> 13) \<or> n = 32)"

text \<open>
  \<^verbatim>\<open>parseInt(s, 16)\<close>, step by step as ECMAScript defines it: skip leading white space,
  take an optional sign, strip an optional \<^verbatim>\<open>0x\<close> or \<^verbatim>\<open>0X\<close>, read the longest run of
  hexadecimal digits; \<^verbatim>\<open>NaN\<close> when that run is empty; whatever follows the run is ignored.
\<close>

definition strip_sign :: "string \<Rightarrow> int \<times> string" where
  "strip_sign s =
     (case s of
        [] \<Rightarrow> (1, [])
      | c # cs \<Rightarrow> if c = CHR ''-'' then (-1, cs) else if c = CHR ''+'' then (1, cs) else (1, s))"

definition strip_0x :: "string \<Rightarrow> string" where
  "strip_0x s =
     (case s of
        c # d # cs \<Rightarrow> if c = CHR ''0'' \<and> (d = CHR ''x'' \<or> d = CHR ''X'') then cs else s
      | _ \<Rightarrow> s)"

definition parseInt16 :: "string \<Rightarrow> jsnum" where
  "parseInt16 s =
     (let (sgn, t) = strip_sign (dropWhile is_space s);
          z = takeWhile is_hex (strip_0x t)
      in if z = [] then NaN else Num (sgn * hex_value z))"

text \<open>
  \<^verbatim>\<open>n.toString(16)\<close>: lower-case hexadecimal digits, most significant first, no leading
  zero, a minus sign for a negative number and \<^verbatim>\<open>"NaN"\<close> for \<^verbatim>\<open>NaN\<close>.
\<close>

definition hex_char :: "nat \<Rightarrow> char" where
  "hex_char d = (if d < 10 then char_of (48 + d) else char_of (87 + d))"

fun hex_of_nat :: "nat \<Rightarrow> string" where
  "hex_of_nat n = (if n < 16 then [hex_char n] else hex_of_nat (n div 16) @ [hex_char (n mod 16)])"

declare hex_of_nat.simps [simp del]

definition toString16 :: "jsnum \<Rightarrow> string" where
  "toString16 x =
     (case x of
        NaN \<Rightarrow> ''NaN''
      | Num n \<Rightarrow> if n < 0 then CHR ''-'' # hex_of_nat (nat (- n)) else hex_of_nat (nat n))"

section \<open>Data model\<close>

text \<open>
  One row of \<^verbatim>\<open>events.csv\<close>, as \<^verbatim>\<open>csv-parser\<close> delivers it: every column is a string.
\<close>

record event_row =
  chain :: string
  factory_address :: string
  exchange_name :: string
  event :: string

text \<open>
  A log entry of an \<^verbatim>\<open>eth_getLogs\<close> result, with the fields the program reads, and the
  object \<^verbatim>\<open>logData\<close> that is handed to the \<^verbatim>\<open>logs\<close> table.
\<close>

record raw_log =
  transactionIndex :: string
  transactionHash :: string
  logIndex :: string
  removed :: bool
  blockNumber :: string
  blockHash :: string

record logData =
  transaction_index :: jsnum
  transaction_hash :: string
  log_index :: jsnum
  removed :: bool
  block_number :: jsnum
  block_hash :: string
  exchange :: string
  network :: string
  strategy :: string

text \<open>
  The exceptions of the program. \<open>RequestFailed\<close> is a rejected \<^verbatim>\<open>axios.post\<close> (its
  message); \<open>NoLogs\<close> is the \<^verbatim>\<open>TypeError\<close> of \<^verbatim>\<open>logs.length\<close> when the response of
  \<^verbatim>\<open>eth_getLogs\<close> carries no \<^verbatim>\<open>result\<close>.
\<close>

datatype error =
    UnsupportedChain string
  | UnsupportedEvent string
  | UnsupportedStrategy string
  | InvalidResponseStructure
  | RequestFailed string
  | NoLogs

text \<open>
  The lines written by \<^verbatim>\<open>log\<close> and \<^verbatim>\<open>console.error\<close>, kept as the values their
  template literals interpolate.
\<close>

datatype log_msg =
    Processing string string string jsnum jsnum
  | FoundLogs nat string string string
  | InsertError string
  | Inserted logData
  | ErrorProcessingLogs error
  | ErrorContinuous error

datatype console_msg =
    UnexpectedResponse
  | ErrorInGetLatestBlockNumber string error
  | ErrorProcessing error

text \<open>
  What the program does to the world, in order: log lines, the three JSON-RPC requests
  (with their request identifier and endpoint), the inserts with what the table client
  answered. \<open>Synced key from to\<close> marks the assignment to \<^verbatim>\<open>lastProcessedBlocks[key]\<close>
  that closes a fetch of the blocks \<open>from\<close> to \<open>to\<close>; it exists for the statements
  only, nothing reads it.
\<close>

datatype effect =
    Log log_msg
  | ConsoleError console_msg
  | BlockNumber nat string
  | GetBlockByNumber nat string
  | GetLogs nat string string string jsnum jsnum
  | Insert logData "string option"
  | Synced string jsnum jsnum

text \<open>The outcome of an awaited request: the promise is rejected, or resolves.\<close>

datatype 'a reply = Rejected string | Response 'a

text \<open>
  The surroundings of the program. The endpoints answer as functions of the request,
  whose identifier is fresh for every call, so any sequence of answers is covered:
  \<open>eth_blockNumber\<close> gives \<^verbatim>\<open>response.data.result\<close> when present,
  \<open>eth_getBlockByNumber\<close> gives the \<^verbatim>\<open>number\<close> of the result when both are present,
  \<open>eth_getLogs\<close> (request identifier, endpoint, \<^verbatim>\<open>fromBlock\<close>, \<^verbatim>\<open>toBlock\<close>, address,
  topic) gives the result array when present. \<open>supabase_insert\<close> answers an insert with
  the message of \<^verbatim>\<open>error\<close>, if any, and may depend on everything done before.
  \<open>events\<close> is the array filled from \<^verbatim>\<open>events.csv\<close> at start-up.
\<close>

record env =
  api_key :: string
  events :: "event_row list"
  eth_blockNumber :: "nat \<Rightarrow> string \<Rightarrow> string option reply"
  eth_getBlockByNumber :: "nat \<Rightarrow> string \<Rightarrow> string option option reply"
  eth_getLogs :: "nat \<Rightarrow> string \<Rightarrow> string \<Rightarrow> string \<Rightarrow> string \<Rightarrow> string \<Rightarrow> raw_log list option reply"
  supabase_insert :: "effect list \<Rightarrow> logData \<Rightarrow> string option"

text \<open>
  The mutable globals \<^verbatim>\<open>requestId\<close> and \<^verbatim>\<open>lastProcessedBlocks\<close>, and the effects so far.
  \<open>initial\<close> is the state in which \<^verbatim>\<open>runContinuously\<close> starts; the lines that
  \<^verbatim>\<open>initializeData\<close> and the start-up code log are left out of the trace.
\<close>

record state =
  requestId :: nat
  lastProcessedBlocks :: "string \<Rightarrow> jsnum option"
  trace :: "effect list"

definition initial :: state where
  "initial = \<lparr>requestId = 1, lastProcessedBlocks = Map.empty, trace = []\<rparr>"

definition emit :: "effect \<Rightarrow> state \<Rightarrow> state" where
  "emit e s = s\<lparr>trace := trace s @ [e]\<rparr>"

definition log :: "log_msg \<Rightarrow> state \<Rightarrow> state" where
  "log m s = emit (Log m) s"

definition console_error :: "console_msg \<Rightarrow> state \<Rightarrow> state" where
  "console_error m s = emit (ConsoleError m) s"

section \<open>The chain client\<close>



text \<open>
  \<^verbatim>\<open>getLogs\<close>: one \<^verbatim>\<open>eth_getLogs\<close> request for a single address and topic, the block
  bounds written as \<^verbatim>\<open>0x\<close> and \<^verbatim>\<open>toString(16)\<close>; it returns \<^verbatim>\<open>response.data.result\<close>,
  which may be absent.
\<close>

definition getLogs ::
  "env \<Rightarrow> string \<Rightarrow> string \<Rightarrow> string \<Rightarrow> jsnum \<Rightarrow> jsnum \<Rightarrow> state \<Rightarrow> (error + raw_log list option) \<times> state" where
  "getLogs E RPC_URL contractAddress eventTopic fromBlock toBlock s =
     (let i = requestId s;
          s1 = emit (GetLogs i RPC_URL contractAddress eventTopic fromBlock toBlock)
                 (s\<lparr>requestId := i + 1\<rparr>)
      in case eth_getLogs E i RPC_URL (''0x'' @ toString16 fromBlock) (''0x'' @ toString16 toBlock)
                contractAddress eventTopic of
           Rejected m \<Rightarrow> (Inl (RequestFailed m), s1)
         | Response r \<Rightarrow> (Inr r, s1))"


text \<open>\<^verbatim>\<open>getEventTopic\<close>.\<close>

definition getEventTopic :: "string \<Rightarrow> error + string" where
  "getEventTopic eventName =
     (if eventName = ''PairCreated''
      then Inr ''0x0d3648bd0f6ba80134a33ba9275ac585d9d315f0ad8355cddefde31afa28d0e9''
      else if eventName = ''PoolCreated''
      then Inr ''0x783cca1c0412dd0d695e784568c96da2e9c22ff989357a2e8b1d9b2b4e6b7118''
      else Inl (UnsupportedEvent eventName))"

section \<open>The synchronisation loop\<close>

text \<open>The object literal \<^verbatim>\<open>logData\<close> built from a log entry, the row and the strategy.\<close>

definition makeLogData :: "raw_log \<Rightarrow> event_row \<Rightarrow> string \<Rightarrow> logData" where
  "makeLogData logEntry ev strat =
     \<lparr>transaction_index = parseInt16 (transactionIndex logEntry),
      transaction_hash = transactionHash logEntry,
      log_index = parseInt16 (logIndex logEntry),
      removed = raw_log.removed logEntry,
      block_number = parseInt16 (blockNumber logEntry),
      block_hash = blockHash logEntry,
      exchange = exchange_name ev,
      network = chain ev,
      strategy = strat\<rparr>"

text \<open>
  One round of the inner \<^verbatim>\<open>for (const logEntry of logs)\<close>: the insert, then one of the
  two log lines; and the loop itself.
\<close>

definition insertLog :: "env \<Rightarrow> event_row \<Rightarrow> string \<Rightarrow> raw_log \<Rightarrow> state \<Rightarrow> state" where
  "insertLog E ev strat logEntry s =
     (let d = makeLogData logEntry ev strat;
          r = supabase_insert E (trace s) d;
          s1 = emit (Insert d r) s
      in case r of
           Some m \<Rightarrow> log (InsertError m) s1
         | None \<Rightarrow> log (Inserted d) s1)"

fun insertLogs :: "env \<Rightarrow> event_row \<Rightarrow> string \<Rightarrow> raw_log list \<Rightarrow> state \<Rightarrow> state" where
  "insertLogs E ev strat [] s = s"
| "insertLogs E ev strat (logEntry # rest) s = insertLogs E ev strat rest (insertLog E ev strat logEntry s)"

text \<open>
  The key of \<^verbatim>\<open>lastProcessedBlocks\<close> for a row and a strategy, and the first block to fetch:
  the stored block plus one when the stored value is truthy, the latest block otherwise.
\<close>

definition trackingKey :: "event_row \<Rightarrow> string \<Rightarrow> string" where
  "trackingKey ev strat = (chain ev @ ''-'' @ factory_address ev) @ ''-'' @ strat"

definition fromBlockOf :: "(string \<Rightarrow> jsnum option) \<Rightarrow> string \<Rightarrow> jsnum \<Rightarrow> jsnum" where
  "fromBlockOf blocks k latestBlock =
     (case blocks k of
        Some c \<Rightarrow> if truthy c then js_succ c else latestBlock
      | None \<Rightarrow> latestBlock)"

text \<open>
  The body of \<^verbatim>\<open>for (const event of networkEvents)\<close> in \<^verbatim>\<open>processNetworkLogs\<close>. The
  result is the exception that left the body, if any; the state keeps what was done
  before it was thrown. The topic is resolved while the arguments of \<^verbatim>\<open>getLogs\<close> are
  evaluated, after the \<^verbatim>\<open>Processing\<close> line and before the request.
\<close>

definition processEvent :: "env \<Rightarrow> string \<Rightarrow> jsnum \<Rightarrow> string \<Rightarrow> event_row \<Rightarrow> state \<Rightarrow> error option \<times> state" where
  "processEvent E RPC_URL latestBlock strat ev s =
     (let k = trackingKey ev strat;
          fromBlock = fromBlockOf (lastProcessedBlocks s) k latestBlock
      in if js_gt fromBlock latestBlock then (None, s)
         else
           (let s1 = log (Processing (chain ev) (exchange_name ev) strat fromBlock latestBlock) s
            in case getEventTopic (event ev) of
                 Inl e \<Rightarrow> (Some e, s1)
               | Inr topic \<Rightarrow>
                   (case getLogs E RPC_URL (factory_address ev) topic fromBlock latestBlock s1 of
                      (Inl e, s2) \<Rightarrow> (Some e, s2)
                    | (Inr None, s2) \<Rightarrow> (Some NoLogs, s2)
                    | (Inr (Some logs), s2) \<Rightarrow>
                        (let s3 = (if length logs > 0
                                   then insertLogs E ev strat logs
                                          (log (FoundLogs (length logs) (factory_address ev) (chain ev) strat) s2)
                                   else s2)
                         in (None, emit (Synced k fromBlock latestBlock)
                                     (s3\<lparr>lastProcessedBlocks := (lastProcessedBlocks s3)(k \<mapsto> latestBlock)\<rparr>))))))"


section \<open>The driver\<close>











section \<open>Reading the trace\<close>

text \<open>
  What the statements read off a trace: the block ranges of the \<^verbatim>\<open>getLogs\<close> calls, the
  records handed to the table, the messages of the inserts that failed, the messages of
  the insert errors that were logged, and the ranges synchronised under a key.
\<close>

definition getLogs_ranges :: "effect list \<Rightarrow> (jsnum \<times> jsnum) list" where
  "getLogs_ranges tr = concat (map (\<lambda>e. case e of GetLogs i u a tp f t \<Rightarrow> [(f, t)] | _ \<Rightarrow> []) tr)"

definition inserted :: "effect list \<Rightarrow> logData list" where
  "inserted tr = concat (map (\<lambda>e. case e of Insert d r \<Rightarrow> [d] | _ \<Rightarrow> []) tr)"

definition failed_inserts :: "effect list \<Rightarrow> string list" where
  "failed_inserts tr = concat (map (\<lambda>e. case e of Insert d (Some m) \<Rightarrow> [m] | _ \<Rightarrow> []) tr)"

definition logged_insert_errors :: "effect list \<Rightarrow> string list" where
  "logged_insert_errors tr = concat (map (\<lambda>e. case e of Log (InsertError m) \<Rightarrow> [m] | _ \<Rightarrow> []) tr)"

definition synced :: "string \<Rightarrow> effect list \<Rightarrow> (jsnum \<times> jsnum) list" where
  "synced k tr =
     concat (map (\<lambda>e. case e of Synced k' f t \<Rightarrow> if k' = k then [(f, t)] else [] | _ \<Rightarrow> []) tr)"


text \<open>The effects of \<open>s'\<close> that come after those of an earlier state \<open>s\<close>.\<close>

definition since :: "state \<Rightarrow> state \<Rightarrow> effect list" where
  "since s s' = drop (length (trace s)) (trace s')"


section \<open>The invariant of a tracking key\<close>




section \<open>Concrete scenarios\<close>

text \<open>
  A row for a pair factory on Ethereum; a log entry with a given \<^verbatim>\<open>logIndex\<close> and
  \<^verbatim>\<open>blockNumber\<close>; and surroundings in which every latest-block request answers
  \<open>latest\<close>, every \<^verbatim>\<open>eth_getLogs\<close> request answers \<open>logs\<close>, and the table rejects
  exactly the records whose \<^verbatim>\<open>log_index\<close> is \<open>1\<close>.
\<close>

definition pair_row :: event_row where
  "pair_row = \<lparr>chain = ''ethereum'', factory_address = ''0xABC'',
                exchange_name = ''uniswap'', event = ''PairCreated''\<rparr>"

definition log_entry :: "string \<Rightarrow> string \<Rightarrow> raw_log" where
  "log_entry idx blk =
     \<lparr>transactionIndex = ''0x0'', transactionHash = ''0xaa'', logIndex = idx,
      raw_log.removed = False, blockNumber = blk, blockHash = ''0xbb''\<rparr>"

definition world :: "event_row list \<Rightarrow> string \<Rightarrow> raw_log list option reply \<Rightarrow> env" where
  "world evs latest logs =
     \<lparr>api_key = ''KEY'', events = evs,
      eth_blockNumber = (\<lambda>i u. Response (Some latest)),
      eth_getBlockByNumber = (\<lambda>i u. Response (Some (Some latest))),
      eth_getLogs = (\<lambda>i u f t a tp. logs),
      supabase_insert = (\<lambda>tr d. if log_index d = Num 1 then Some ''duplicate key'' else None)\<rparr>"


text \<open>
  States and rows of the scenarios: a state in which block \<open>c\<close> is stored for the row
  under \<^verbatim>\<open>eth_blockNumber\<close>; the state after a first round at latest block 100 that
  returns one entry of block \<^verbatim>\<open>0x64\<close>; the state after a first round at latest block 0;
  a batch of three entries and the state after the round that fetches it; a row with an
  unknown event name.
\<close>

definition at_block :: "int \<Rightarrow> state" where
  "at_block c = initial\<lparr>lastProcessedBlocks := [trackingKey pair_row ''eth_blockNumber'' \<mapsto> Num c]\<rparr>"



definition three_logs :: "raw_log list" where
  "three_logs = [log_entry ''0x0'' ''0x64'', log_entry ''0x1'' ''0x64'', log_entry ''0x2'' ''0x64'']"

definition batch_poll :: state where
  "batch_poll = snd (processEvent (world [pair_row] ''0x64'' (Response (Some three_logs)))
                       ''url'' (Num 100) ''eth_blockNumber'' pair_row initial)"

definition swap_row :: event_row where
  "swap_row = \<lparr>chain = ''ethereum'', factory_address = ''0xABC'',
                exchange_name = ''uniswap'', event = ''Swap''\<rparr>"



section \<open>Effects of the primitive steps\<close>

lemma emit_simps [simp]:
  "trace (emit e s) = trace s @ [e]"
  "lastProcessedBlocks (emit e s) = lastProcessedBlocks s"
  "requestId (emit e s) = requestId s"
  by (simp_all add: emit_def)

lemma log_simps [simp]:
  "trace (log m s) = trace s @ [Log m]"
  "lastProcessedBlocks (log m s) = lastProcessedBlocks s"
  "requestId (log m s) = requestId s"
  by (simp_all add: log_def)

lemma console_error_simps [simp]:
  "trace (console_error m s) = trace s @ [ConsoleError m]"
  "lastProcessedBlocks (console_error m s) = lastProcessedBlocks s"
  "requestId (console_error m s) = requestId s"
  by (simp_all add: console_error_def)

lemma reading_append [simp]:
  "getLogs_ranges (xs @ ys) = getLogs_ranges xs @ getLogs_ranges ys"
  "inserted (xs @ ys) = inserted xs @ inserted ys"
  "failed_inserts (xs @ ys) = failed_inserts xs @ failed_inserts ys"
  "logged_insert_errors (xs @ ys) = logged_insert_errors xs @ logged_insert_errors ys"
  "synced k (xs @ ys) = synced k xs @ synced k ys"
  by (simp_all add: getLogs_ranges_def inserted_def failed_inserts_def logged_insert_errors_def synced_def)

lemma reading_Nil [simp]:
  "getLogs_ranges [] = []" "inserted [] = []" "failed_inserts [] = []"
  "logged_insert_errors [] = []" "synced k [] = []"
  by (simp_all add: getLogs_ranges_def inserted_def failed_inserts_def logged_insert_errors_def synced_def)

lemma reading_Cons [simp]:
  "getLogs_ranges (e # es) = (case e of GetLogs i u a tp f t \<Rightarrow> [(f, t)] | _ \<Rightarrow> []) @ getLogs_ranges es"
  "inserted (e # es) = (case e of Insert d r \<Rightarrow> [d] | _ \<Rightarrow> []) @ inserted es"
  "failed_inserts (e # es) = (case e of Insert d (Some m) \<Rightarrow> [m] | _ \<Rightarrow> []) @ failed_inserts es"
  "logged_insert_errors (e # es) = (case e of Log (InsertError m) \<Rightarrow> [m] | _ \<Rightarrow> []) @ logged_insert_errors es"
  "synced k (e # es) = (case e of Synced k' f t \<Rightarrow> if k' = k then [(f, t)] else [] | _ \<Rightarrow> []) @ synced k es"
  by (simp_all add: getLogs_ranges_def inserted_def failed_inserts_def logged_insert_errors_def synced_def)

lemma insertLog_frame [simp]:
  "lastProcessedBlocks (insertLog E ev strat l s) = lastProcessedBlocks s"
  "requestId (insertLog E ev strat l s) = requestId s"
  by (simp_all add: insertLog_def Let_def split: option.splits)

lemma insertLog_trace:
  "\<exists>new. trace (insertLog E ev strat l s) = trace s @ new
     \<and> inserted new = [makeLogData l ev strat]
     \<and> logged_insert_errors new = failed_inserts new
     \<and> getLogs_ranges new = [] \<and> (\<forall>k. synced k new = [])"
  by (simp add: insertLog_def Let_def split: option.splits)

lemma insertLogs_frame [simp]:
  "lastProcessedBlocks (insertLogs E ev strat ls s) = lastProcessedBlocks s"
  "requestId (insertLogs E ev strat ls s) = requestId s"
  by (induction ls arbitrary: s) simp_all

lemma insertLogs_trace:
  "\<exists>new. trace (insertLogs E ev strat ls s) = trace s @ new
     \<and> inserted new = map (\<lambda>l. makeLogData l ev strat) ls
     \<and> logged_insert_errors new = failed_inserts new
     \<and> getLogs_ranges new = [] \<and> (\<forall>k. synced k new = [])"
proof (induction ls arbitrary: s)
  case Nil
  then show ?case by simp
next
  case (Cons l ls)
  obtain n1 where n1: "trace (insertLog E ev strat l s) = trace s @ n1"
    "inserted n1 = [makeLogData l ev strat]" "logged_insert_errors n1 = failed_inserts n1"
    "getLogs_ranges n1 = []" "\<forall>k. synced k n1 = []"
    using insertLog_trace by blast
  obtain n2 where n2: "trace (insertLogs E ev strat ls (insertLog E ev strat l s)) = trace (insertLog E ev strat l s) @ n2"
    "inserted n2 = map (\<lambda>l. makeLogData l ev strat) ls" "logged_insert_errors n2 = failed_inserts n2"
    "getLogs_ranges n2 = []" "\<forall>k. synced k n2 = []"
    using Cons.IH by blast
  show ?case
    by (rule exI [of _ "n1 @ n2"]) (simp add: n1 n2)
qed

section \<open>One round of the loop over the rows\<close>

lemma processEvent_skip:
  "js_gt (fromBlockOf (lastProcessedBlocks s) (trackingKey ev strat) latest) latest \<Longrightarrow>
   processEvent E url latest strat ev s = (None, s)"
  by (simp add: processEvent_def Let_def)

lemma getLogs_frame [simp]:
  "lastProcessedBlocks (snd (getLogs E url a tp f t s)) = lastProcessedBlocks s"
  "requestId (snd (getLogs E url a tp f t s)) = requestId s + 1"
  "trace (snd (getLogs E url a tp f t s)) = trace s @ [GetLogs (requestId s) url a tp f t]"
  by (simp_all add: getLogs_def Let_def split: reply.splits)

lemma getLogs_result:
  "fst (getLogs E url a tp f t s) =
     (case eth_getLogs E (requestId s) url (''0x'' @ toString16 f) (''0x'' @ toString16 t) a tp of
        Rejected m \<Rightarrow> Inl (RequestFailed m) | Response r \<Rightarrow> Inr r)"
  by (simp add: getLogs_def Let_def split: reply.splits)

lemma processEvent_fetched:
  assumes k_def: "k = trackingKey ev strat"
    and from_def: "from = fromBlockOf (lastProcessedBlocks s) k latest"
    and r_def: "r = processEvent E url latest strat ev s"
    and go: "\<not> js_gt from latest"
    and topic: "getEventTopic (event ev) = Inr topic"
    and reply: "eth_getLogs E (requestId s) url (''0x'' @ toString16 from) (''0x'' @ toString16 latest)
                  (factory_address ev) topic = Response (Some logs)"
  shows "fst r = None"
    and "lastProcessedBlocks (snd r) = (lastProcessedBlocks s)(k \<mapsto> latest)"
    and "requestId (snd r) = requestId s + 1"
    and "\<exists>new. trace (snd r) =
            trace s @ [Log (Processing (chain ev) (exchange_name ev) strat from latest),
                       GetLogs (requestId s) url (factory_address ev) topic from latest]
                    @ new @ [Synced k from latest]
          \<and> inserted new = map (\<lambda>l. makeLogData l ev strat) logs
          \<and> logged_insert_errors new = failed_inserts new
          \<and> getLogs_ranges new = [] \<and> (\<forall>k'. synced k' new = [])"
proof -
  let ?s1 = "log (Processing (chain ev) (exchange_name ev) strat from latest) s"
  obtain s2 where g: "getLogs E url (factory_address ev) topic from latest ?s1 = (Inr (Some logs), s2)"
    using reply getLogs_result [of E url "factory_address ev" topic "from" latest ?s1]
    by (cases "getLogs E url (factory_address ev) topic from latest ?s1") simp
  have s2: "lastProcessedBlocks s2 = lastProcessedBlocks s" "requestId s2 = requestId s + 1"
    "trace s2 = trace s @ [Log (Processing (chain ev) (exchange_name ev) strat from latest),
                       GetLogs (requestId s) url (factory_address ev) topic from latest]"
    using getLogs_frame [of E url "factory_address ev" topic "from" latest ?s1] g by simp_all
  define s3 where "s3 = (if length logs > 0
       then insertLogs E ev strat logs (log (FoundLogs (length logs) (factory_address ev) (chain ev) strat) s2)
       else s2)"
  have r: "r = (None, emit (Synced k from latest) (s3\<lparr>lastProcessedBlocks := (lastProcessedBlocks s3)(k \<mapsto> latest)\<rparr>))"
    using go topic g unfolding r_def processEvent_def from_def k_def s3_def
    by (simp add: Let_def)
  have s3b: "lastProcessedBlocks s3 = lastProcessedBlocks s" "requestId s3 = requestId s + 1"
    by (simp_all add: s3_def s2)
  have s3t: "\<exists>new. trace s3 = trace s2 @ new
          \<and> inserted new = map (\<lambda>l. makeLogData l ev strat) logs
          \<and> logged_insert_errors new = failed_inserts new
          \<and> getLogs_ranges new = [] \<and> (\<forall>k'. synced k' new = [])"
  proof (cases "length logs > 0")
    case True
    let ?s = "log (FoundLogs (length logs) (factory_address ev) (chain ev) strat) s2"
    obtain n where n: "trace (insertLogs E ev strat logs ?s) = trace ?s @ n"
      "inserted n = map (\<lambda>l. makeLogData l ev strat) logs" "logged_insert_errors n = failed_inserts n"
      "getLogs_ranges n = []" "\<forall>k. synced k n = []"
      using insertLogs_trace by blast
    have "trace s3 = trace s2 @ Log (FoundLogs (length logs) (factory_address ev) (chain ev) strat) # n"
      using True by (simp add: s3_def n)
    then show ?thesis
      by (intro exI [of _ "Log (FoundLogs (length logs) (factory_address ev) (chain ev) strat) # n"])
         (simp add: n)
  next
    case False
    then show ?thesis by (simp add: s3_def)
  qed
  show "fst r = None" by (simp add: r)
  show "lastProcessedBlocks (snd r) = (lastProcessedBlocks s)(k \<mapsto> latest)"
    by (simp add: r s3b)
  show "requestId (snd r) = requestId s + 1" by (simp add: r s3b)
  from s3t obtain new where new: "trace s3 = trace s2 @ new"
    "inserted new = map (\<lambda>l. makeLogData l ev strat) logs"
    "logged_insert_errors new = failed_inserts new"
    "getLogs_ranges new = []" "\<forall>k'. synced k' new = []" by blast
  show "\<exists>new. trace (snd r) =
            trace s @ [Log (Processing (chain ev) (exchange_name ev) strat from latest),
                       GetLogs (requestId s) url (factory_address ev) topic from latest]
                    @ new @ [Synced k from latest]
          \<and> inserted new = map (\<lambda>l. makeLogData l ev strat) logs
          \<and> logged_insert_errors new = failed_inserts new
          \<and> getLogs_ranges new = [] \<and> (\<forall>k'. synced k' new = [])"
    by (rule exI [of _ new]) (simp add: r new s2)
qed

lemma processEvent_bad_topic:
  "\<not> js_gt (fromBlockOf (lastProcessedBlocks s) (trackingKey ev strat) latest) latest \<Longrightarrow>
   getEventTopic (event ev) = Inl e \<Longrightarrow>
   processEvent E url latest strat ev s =
     (Some e, log (Processing (chain ev) (exchange_name ev) strat
                     (fromBlockOf (lastProcessedBlocks s) (trackingKey ev strat) latest) latest) s)"
  by (simp add: processEvent_def Let_def)

lemma processEvent_no_fetch:
  assumes from_def: "from = fromBlockOf (lastProcessedBlocks s) (trackingKey ev strat) latest"
    and r_def: "r = processEvent E url latest strat ev s"
    and go: "\<not> js_gt from latest"
    and topic: "getEventTopic (event ev) = Inr topic"
    and other: "\<And>ls. eth_getLogs E (requestId s) url (''0x'' @ toString16 from) (''0x'' @ toString16 latest)
                  (factory_address ev) topic \<noteq> Response (Some ls)"
  shows "fst r = (case eth_getLogs E (requestId s) url (''0x'' @ toString16 from) (''0x'' @ toString16 latest)
                  (factory_address ev) topic of Rejected m \<Rightarrow> Some (RequestFailed m) | Response _ \<Rightarrow> Some NoLogs)"
    and "lastProcessedBlocks (snd r) = lastProcessedBlocks s"
    and "trace (snd r) = trace s @ [Log (Processing (chain ev) (exchange_name ev) strat from latest),
                       GetLogs (requestId s) url (factory_address ev) topic from latest]"
proof -
  let ?s1 = "log (Processing (chain ev) (exchange_name ev) strat from latest) s"
  let ?g = "getLogs E url (factory_address ev) topic from latest ?s1"
  obtain x s2 where g: "?g = (x, s2)" by (cases ?g)
  have x: "x = (case eth_getLogs E (requestId s) url (''0x'' @ toString16 from) (''0x'' @ toString16 latest)
                  (factory_address ev) topic of Rejected m \<Rightarrow> Inl (RequestFailed m) | Response r \<Rightarrow> Inr r)"
    using getLogs_result [of E url "factory_address ev" topic "from" latest ?s1] g by simp
  have s2: "lastProcessedBlocks s2 = lastProcessedBlocks s"
    "trace s2 = trace s @ [Log (Processing (chain ev) (exchange_name ev) strat from latest),
                       GetLogs (requestId s) url (factory_address ev) topic from latest]"
    using getLogs_frame [of E url "factory_address ev" topic "from" latest ?s1] g by simp_all
  have r: "r = (case x of Inl e \<Rightarrow> (Some e, s2) | Inr None \<Rightarrow> (Some NoLogs, s2) | Inr (Some ls) \<Rightarrow> (None, s2))"
    using go topic g other x unfolding r_def processEvent_def from_def
    by (simp add: Let_def split: sum.splits option.splits reply.splits)
  show "fst r = (case eth_getLogs E (requestId s) url (''0x'' @ toString16 from) (''0x'' @ toString16 latest)
                  (factory_address ev) topic of Rejected m \<Rightarrow> Some (RequestFailed m) | Response _ \<Rightarrow> Some NoLogs)"
    using other by (simp add: r x split: reply.splits option.splits)
  show "lastProcessedBlocks (snd r) = lastProcessedBlocks s"
    by (simp add: r s2 split: sum.splits option.splits)
  show "trace (snd r) = trace s @ [Log (Processing (chain ev) (exchange_name ev) strat from latest),
                       GetLogs (requestId s) url (factory_address ev) topic from latest]"
    by (simp add: r s2 split: sum.splits option.splits)
qed


section \<open>Hexadecimal round trip and normalisation\<close>












section \<open>The range a round requests\<close>

lemma since_append: "trace s' = trace s @ new \<Longrightarrow> since s s' = new"
  by (simp add: since_def)

lemma since_self [simp]: "since s s = []"
  by (simp add: since_def)

lemma processEvent_ranges:
  assumes "getEventTopic (event ev) = Inr topic"
  shows "getLogs_ranges (since s (snd (processEvent E url latest strat ev s))) =
           (if js_gt (fromBlockOf (lastProcessedBlocks s) (trackingKey ev strat) latest) latest then []
            else [(fromBlockOf (lastProcessedBlocks s) (trackingKey ev strat) latest, latest)])"
proof (cases "js_gt (fromBlockOf (lastProcessedBlocks s) (trackingKey ev strat) latest) latest")
  case True
  then show ?thesis by (simp add: processEvent_skip)
next
  case go: False
  let ?from = "fromBlockOf (lastProcessedBlocks s) (trackingKey ev strat) latest"
  let ?r = "processEvent E url latest strat ev s"
  show ?thesis
  proof (cases "\<exists>logs. eth_getLogs E (requestId s) url (''0x'' @ toString16 ?from) (''0x'' @ toString16 latest)
                  (factory_address ev) topic = Response (Some logs)")
    case True
    then obtain logs where reply: "eth_getLogs E (requestId s) url (''0x'' @ toString16 ?from) (''0x'' @ toString16 latest)
                  (factory_address ev) topic = Response (Some logs)" by blast
    from processEvent_fetched(4) [OF refl refl refl go assms reply]
    obtain new where new: "trace (snd ?r) =
            trace s @ [Log (Processing (chain ev) (exchange_name ev) strat ?from latest),
                       GetLogs (requestId s) url (factory_address ev) topic ?from latest]
                    @ new @ [Synced (trackingKey ev strat) ?from latest]"
          "getLogs_ranges new = []" by blast
    show ?thesis
      using go by (simp add: since_append [OF new(1)] new(2))
  next
    case False
    then have other: "\<And>ls. eth_getLogs E (requestId s) url (''0x'' @ toString16 ?from) (''0x'' @ toString16 latest)
                  (factory_address ev) topic \<noteq> Response (Some ls)" by blast
    note f = processEvent_no_fetch [OF refl refl go assms other]
    show ?thesis
      using go by (simp add: since_append [OF f(3)])
  qed
qed

section \<open>Cursor advancement\<close>

text \<open>
  C1, as amended. For every row and strategy, when a round of \<^verbatim>\<open>processNetworkLogs\<close> is
  not skipped, the topic resolves and the \<^verbatim>\<open>eth_getLogs\<close> request returns an array of
  logs (empty or not), the round ends normally and the block stored under the tracking
  key is the latest block of that round.
\<close>

theorem cursor_set_after_fetch:
  assumes "\<not> js_gt (fromBlockOf (lastProcessedBlocks s) (trackingKey ev strat) latest) latest"
    and "getEventTopic (event ev) = Inr topic"
    and "eth_getLogs E (requestId s) url
           (''0x'' @ toString16 (fromBlockOf (lastProcessedBlocks s) (trackingKey ev strat) latest))
           (''0x'' @ toString16 latest) (factory_address ev) topic = Response (Some logs)"
  shows "fst (processEvent E url latest strat ev s) = None
       \<and> lastProcessedBlocks (snd (processEvent E url latest strat ev s)) (trackingKey ev strat) = Some latest"
  using processEvent_fetched(1,2) [OF refl refl refl assms] by simp

theorem cursor_set_after_fetch_witness:
  "\<not> js_gt (fromBlockOf (lastProcessedBlocks initial) (trackingKey pair_row ''eth_blockNumber'') (Num 100)) (Num 100)
   \<and> getEventTopic (event pair_row) = Inr ''0x0d3648bd0f6ba80134a33ba9275ac585d9d315f0ad8355cddefde31afa28d0e9''
   \<and> eth_getLogs (world [pair_row] ''0x64'' (Response (Some []))) (requestId initial) ''url''
           (''0x'' @ toString16 (fromBlockOf (lastProcessedBlocks initial) (trackingKey pair_row ''eth_blockNumber'') (Num 100)))
           (''0x'' @ toString16 (Num 100)) (factory_address pair_row)
           ''0x0d3648bd0f6ba80134a33ba9275ac585d9d315f0ad8355cddefde31afa28d0e9'' = Response (Some [])
   \<and> fst (processEvent (world [pair_row] ''0x64'' (Response (Some []))) ''url'' (Num 100) ''eth_blockNumber'' pair_row initial) = None
   \<and> lastProcessedBlocks (snd (processEvent (world [pair_row] ''0x64'' (Response (Some []))) ''url'' (Num 100) ''eth_blockNumber'' pair_row initial))
        (trackingKey pair_row ''eth_blockNumber'') = Some (Num 100)"
proof -
  have a: "\<not> js_gt (fromBlockOf (lastProcessedBlocks initial) (trackingKey pair_row ''eth_blockNumber'') (Num 100)) (Num 100)"
    by (simp add: initial_def fromBlockOf_def)
  have b: "getEventTopic (event pair_row) = Inr ''0x0d3648bd0f6ba80134a33ba9275ac585d9d315f0ad8355cddefde31afa28d0e9''"
    by (simp add: pair_row_def getEventTopic_def)
  have c: "eth_getLogs (world [pair_row] ''0x64'' (Response (Some []))) (requestId initial) ''url''
           (''0x'' @ toString16 (fromBlockOf (lastProcessedBlocks initial) (trackingKey pair_row ''eth_blockNumber'') (Num 100)))
           (''0x'' @ toString16 (Num 100)) (factory_address pair_row)
           ''0x0d3648bd0f6ba80134a33ba9275ac585d9d315f0ad8355cddefde31afa28d0e9'' = Response (Some [])"
    by (simp add: world_def)
  from cursor_set_after_fetch [OF a b c] a b c show ?thesis by blast
qed

text \<open>
  C1 as stated fails: a round that is not skipped and issues its \<^verbatim>\<open>getLogs\<close> call, but
  whose request is rejected, ends with the exception and leaves the key without the
  latest block.
\<close>

theorem cursor_kept_when_fetch_fails:
  "\<not> js_gt (fromBlockOf (lastProcessedBlocks initial) (trackingKey pair_row ''eth_blockNumber'') (Num 100)) (Num 100)
   \<and> getLogs_ranges (trace (snd (processEvent (world [pair_row] ''0x64'' (Rejected ''timeout'')) ''url'' (Num 100)
                                  ''eth_blockNumber'' pair_row initial))) = [(Num 100, Num 100)]
   \<and> fst (processEvent (world [pair_row] ''0x64'' (Rejected ''timeout'')) ''url'' (Num 100)
                                  ''eth_blockNumber'' pair_row initial) = Some (RequestFailed ''timeout'')
   \<and> lastProcessedBlocks (snd (processEvent (world [pair_row] ''0x64'' (Rejected ''timeout'')) ''url'' (Num 100)
                                  ''eth_blockNumber'' pair_row initial)) (trackingKey pair_row ''eth_blockNumber'')
       \<noteq> Some (Num 100)"
  by code_simp

section \<open>A pass over the rows of a network\<close>





section \<open>Skipping and the order of the bounds\<close>



section \<open>The first block to fetch\<close>




text \<open>
  C10. A stored block of \<open>0\<close> is read as if nothing were stored: the first block to
  fetch is the latest block, not \<open>1\<close>, and the round fetches from the latest block to
  the latest block.
\<close>

theorem zero_cursor_read_as_unset:
  assumes "lastProcessedBlocks s (trackingKey ev strat) = Some (Num 0)"
  shows "fromBlockOf (lastProcessedBlocks s) (trackingKey ev strat) latest = latest
       \<and> (getEventTopic (event ev) = Inr topic \<longrightarrow>
            getLogs_ranges (since s (snd (processEvent E url latest strat ev s))) = [(latest, latest)])"
proof -
  have g: "\<not> js_gt latest latest" by (cases latest) simp_all
  have f: "fromBlockOf (lastProcessedBlocks s) (trackingKey ev strat) latest = latest"
    using assms by (simp add: fromBlockOf_def)
  show ?thesis using g f by (simp add: processEvent_ranges)
qed

theorem zero_cursor_read_as_unset_witness:
  "lastProcessedBlocks (at_block 0) (trackingKey pair_row ''eth_blockNumber'') = Some (Num 0)
   \<and> fromBlockOf (lastProcessedBlocks (at_block 0)) (trackingKey pair_row ''eth_blockNumber'') (Num 5) = Num 5
   \<and> Num 5 \<noteq> js_succ (Num 0)
   \<and> getEventTopic (event pair_row) = Inr ''0x0d3648bd0f6ba80134a33ba9275ac585d9d315f0ad8355cddefde31afa28d0e9''
   \<and> getLogs_ranges (since (at_block 0)
        (snd (processEvent (world [pair_row] ''0x5'' (Response (Some []))) ''url'' (Num 5)
                ''eth_blockNumber'' pair_row (at_block 0)))) = [(Num 5, Num 5)]"
proof -
  have a: "lastProcessedBlocks (at_block 0) (trackingKey pair_row ''eth_blockNumber'') = Some (Num 0)"
    by (simp add: at_block_def)
  have t: "getEventTopic (event pair_row) = Inr ''0x0d3648bd0f6ba80134a33ba9275ac585d9d315f0ad8355cddefde31afa28d0e9''"
    by (simp add: pair_row_def getEventTopic_def)
  from zero_cursor_read_as_unset [OF a, where latest = "Num 5"
      and topic = "''0x0d3648bd0f6ba80134a33ba9275ac585d9d315f0ad8355cddefde31afa28d0e9''"
      and E = "world [pair_row] ''0x5'' (Response (Some []))" and url = "''url''"] a t
  show ?thesis by simp
qed

section \<open>Failing inserts\<close>

text \<open>
  C6. When the fetch of a round returns log entries, every entry is normalised and handed
  to the table in order, whatever the table answers; every failed insert is logged
  (the logged insert errors are the errors of the failed inserts, in order); the round
  ends normally and the block stored under the key is the latest block.
\<close>

theorem batch_survives_failed_insert:
  assumes "\<not> js_gt (fromBlockOf (lastProcessedBlocks s) (trackingKey ev strat) latest) latest"
    and "getEventTopic (event ev) = Inr topic"
    and "eth_getLogs E (requestId s) url
           (''0x'' @ toString16 (fromBlockOf (lastProcessedBlocks s) (trackingKey ev strat) latest))
           (''0x'' @ toString16 latest) (factory_address ev) topic = Response (Some logs)"
  shows "inserted (since s (snd (processEvent E url latest strat ev s))) = map (\<lambda>l. makeLogData l ev strat) logs
       \<and> logged_insert_errors (since s (snd (processEvent E url latest strat ev s)))
           = failed_inserts (since s (snd (processEvent E url latest strat ev s)))
       \<and> fst (processEvent E url latest strat ev s) = None
       \<and> lastProcessedBlocks (snd (processEvent E url latest strat ev s)) (trackingKey ev strat) = Some latest"
proof -
  note f = processEvent_fetched [OF refl refl refl assms]
  from f(4) obtain new where new:
    "trace (snd (processEvent E url latest strat ev s)) =
       trace s @ [Log (Processing (chain ev) (exchange_name ev) strat
                         (fromBlockOf (lastProcessedBlocks s) (trackingKey ev strat) latest) latest),
                  GetLogs (requestId s) url (factory_address ev) topic
                         (fromBlockOf (lastProcessedBlocks s) (trackingKey ev strat) latest) latest]
               @ new @ [Synced (trackingKey ev strat)
                         (fromBlockOf (lastProcessedBlocks s) (trackingKey ev strat) latest) latest]"
    "inserted new = map (\<lambda>l. makeLogData l ev strat) logs"
    "logged_insert_errors new = failed_inserts new"
    by blast
  show ?thesis
    by (simp add: since_append [OF new(1)] new(2,3) f(1,2))
qed

theorem batch_survives_failed_insert_witness:
  "\<not> js_gt (fromBlockOf (lastProcessedBlocks initial) (trackingKey pair_row ''eth_blockNumber'') (Num 100)) (Num 100)
   \<and> getEventTopic (event pair_row) = Inr ''0x0d3648bd0f6ba80134a33ba9275ac585d9d315f0ad8355cddefde31afa28d0e9''
   \<and> eth_getLogs (world [pair_row] ''0x64'' (Response (Some three_logs))) (requestId initial) ''url''
           (''0x'' @ toString16 (fromBlockOf (lastProcessedBlocks initial) (trackingKey pair_row ''eth_blockNumber'') (Num 100)))
           (''0x'' @ toString16 (Num 100)) (factory_address pair_row)
           ''0x0d3648bd0f6ba80134a33ba9275ac585d9d315f0ad8355cddefde31afa28d0e9'' = Response (Some three_logs)
   \<and> map log_index (inserted (since initial batch_poll)) = [Num 0, Num 1, Num 2]
   \<and> failed_inserts (since initial batch_poll) = [''duplicate key'']
   \<and> logged_insert_errors (since initial batch_poll) = [''duplicate key'']
   \<and> lastProcessedBlocks batch_poll (trackingKey pair_row ''eth_blockNumber'') = Some (Num 100)"
proof -
  have a: "\<not> js_gt (fromBlockOf (lastProcessedBlocks initial) (trackingKey pair_row ''eth_blockNumber'') (Num 100)) (Num 100)"
    by (simp add: initial_def fromBlockOf_def)
  have b: "getEventTopic (event pair_row) = Inr ''0x0d3648bd0f6ba80134a33ba9275ac585d9d315f0ad8355cddefde31afa28d0e9''"
    by (simp add: pair_row_def getEventTopic_def)
  have c: "eth_getLogs (world [pair_row] ''0x64'' (Response (Some three_logs))) (requestId initial) ''url''
           (''0x'' @ toString16 (fromBlockOf (lastProcessedBlocks initial) (trackingKey pair_row ''eth_blockNumber'') (Num 100)))
           (''0x'' @ toString16 (Num 100)) (factory_address pair_row)
           ''0x0d3648bd0f6ba80134a33ba9275ac585d9d315f0ad8355cddefde31afa28d0e9'' = Response (Some three_logs)"
    by (simp add: world_def)
  have d: "failed_inserts (since initial batch_poll) = [''duplicate key'']"
    unfolding batch_poll_def by code_simp
  have e: "map log_index (map (\<lambda>l. makeLogData l pair_row ''eth_blockNumber'') three_logs) = [Num 0, Num 1, Num 2]"
    by code_simp
  note th = batch_survives_failed_insert [OF a b c, folded batch_poll_def]
  from th a b c d e show ?thesis by simp
qed

section \<open>Unknown events\<close>

text \<open>
  C7. For a row whose event name is neither \<^verbatim>\<open>PairCreated\<close> nor \<^verbatim>\<open>PoolCreated\<close>,
  \<^verbatim>\<open>getEventTopic\<close> throws the unsupported-event error, and a round for that row issues
  no \<^verbatim>\<open>getLogs\<close> call and no request at all: it is skipped, or it ends with that
  error.
\<close>

theorem unknown_event_not_fetched:
  assumes "event ev \<noteq> ''PairCreated''" and "event ev \<noteq> ''PoolCreated''"
  shows "getEventTopic (event ev) = Inl (UnsupportedEvent (event ev))
       \<and> getLogs_ranges (since s (snd (processEvent E url latest strat ev s))) = []
       \<and> requestId (snd (processEvent E url latest strat ev s)) = requestId s
       \<and> (processEvent E url latest strat ev s = (None, s)
           \<or> fst (processEvent E url latest strat ev s) = Some (UnsupportedEvent (event ev)))"
proof -
  have t: "getEventTopic (event ev) = Inl (UnsupportedEvent (event ev))"
    using assms by (simp add: getEventTopic_def)
  show ?thesis
  proof (cases "js_gt (fromBlockOf (lastProcessedBlocks s) (trackingKey ev strat) latest) latest")
    case True
    then show ?thesis using t by (simp add: processEvent_skip)
  next
    case False
    then show ?thesis using t by (simp add: processEvent_bad_topic [OF False t] since_def)
  qed
qed

theorem unknown_event_not_fetched_witness:
  "event swap_row \<noteq> ''PairCreated'' \<and> event swap_row \<noteq> ''PoolCreated''
   \<and> getEventTopic (event swap_row) = Inl (UnsupportedEvent ''Swap'')
   \<and> getLogs_ranges (since initial (snd (processEvent (world [swap_row] ''0x64'' (Response (Some [])))
        ''url'' (Num 100) ''eth_blockNumber'' swap_row initial))) = []
   \<and> fst (processEvent (world [swap_row] ''0x64'' (Response (Some [])))
        ''url'' (Num 100) ''eth_blockNumber'' swap_row initial) = Some (UnsupportedEvent ''Swap'')"
proof -
  have a: "event swap_row \<noteq> ''PairCreated''" and b: "event swap_row \<noteq> ''PoolCreated''"
    by (simp_all add: swap_row_def)
  have c: "fst (processEvent (world [swap_row] ''0x64'' (Response (Some [])))
        ''url'' (Num 100) ''eth_blockNumber'' swap_row initial) = Some (UnsupportedEvent ''Swap'')"
    by code_simp
  have d: "event swap_row = ''Swap''" by (simp add: swap_row_def)
  from unknown_event_not_fetched [OF a b, where s = initial
      and E = "world [swap_row] ''0x64'' (Response (Some []))" and url = "''url''"
      and latest = "Num 100" and strat = "''eth_blockNumber''"] a b c d
  show ?thesis by simp
qed

section \<open>The loop over the networks and its catch\<close>








section \<open>Unsupported networks and the poll loop\<close>





section \<open>Every step keeps the invariant\<close>

















section \<open>Ascending ranges and a growing cursor\<close>





end
